theory Spec2Isabelle
  imports Main
begin

section \<open>Data model\<close>

text \<open>
  The client (\<^verbatim>\<open>client.py\<close>) keeps one list, \<^verbatim>\<open>chat_history\<close>, and talks to three
  things it does not implement: the chat-completion endpoint, the JSON parser and the
  tool server's RPC client. Exceptions are values; only the class matters to the
  handlers (\<^verbatim>\<open>except json.JSONDecodeError\<close> before \<^verbatim>\<open>except Exception\<close>), and the
  text \<^verbatim>\<open>str(e)\<close> is carried because one handler prints it into the history.
\<close>

datatype py_exception =
    JSONDecodeError string
  | IndexError string
  | EOFError string
  | OtherException string

fun exc_str :: "py_exception \<Rightarrow> string" where
  "exc_str (JSONDecodeError m) = m"
| "exc_str (IndexError m) = m"
| "exc_str (EOFError m) = m"
| "exc_str (OtherException m) = m"

text \<open>\<^verbatim>\<open>tool_call.id\<close>, \<^verbatim>\<open>tool_call.function.name\<close>, \<^verbatim>\<open>tool_call.function.arguments\<close>.\<close>

record function_call =
  fc_name :: string
  fc_arguments :: string

record tool_call =
  tc_id :: string
  tc_function :: function_call

text \<open>
  \<^verbatim>\<open>response.choices[0].message\<close>: the content may be absent, and \<^verbatim>\<open>tool_calls\<close> is
  \<^verbatim>\<open>None\<close> or a list.
\<close>

record assistant_message =
  am_content :: "string option"
  am_tool_calls :: "tool_call list option"

text \<open>
  The entries of \<^verbatim>\<open>chat_history\<close>: the three dictionaries the client builds, and the
  message object of a response, appended as it came.
\<close>

datatype message =
    UserDict string
  | AssistantDict string
  | ToolDict string string string
  | CompletionMessage assistant_message

text \<open>A tool as the server lists it, and the descriptor the model API takes.\<close>

record 's tool =
  tool_name :: string
  tool_description :: "string option"
  tool_inputSchema :: 's

record 's function_definition =
  fd_name :: string
  fd_description :: "string option"
  fd_parameters :: 's

record 's tool_param =
  tp_type :: string
  tp_function :: "'s function_definition"

section \<open>Tool bridge\<close>

text \<open>
  The \<^verbatim>\<open>for tool in fastmcp_tools\<close> loop of \<^verbatim>\<open>get_openai_compatible_tools\<close>, with
  \<^verbatim>\<open>openai_tools\<close> as the accumulator it appends to.
\<close>

fun convert_tools :: "'s tool_param list \<Rightarrow> 's tool list \<Rightarrow> 's tool_param list" where
  "convert_tools openai_tools [] = openai_tools"
| "convert_tools openai_tools (t # ts) =
     convert_tools
       (openai_tools @
        [\<lparr>tp_type = ''function'',
          tp_function = \<lparr>fd_name = tool_name t,
                          fd_description = tool_description t,
                          fd_parameters = tool_inputSchema t\<rparr>\<rparr>])
       ts"

text \<open>
  \<^verbatim>\<open>await mcp_client.list_tools()\<close> is the argument: the list, or the exception the
  call raised, which nothing in the function catches.
\<close>

definition get_openai_compatible_tools ::
  "py_exception + 's tool list \<Rightarrow> py_exception + 's tool_param list" where
  "get_openai_compatible_tools listed =
     (case listed of
        Inl e \<Rightarrow> Inl e
      | Inr fastmcp_tools \<Rightarrow> Inr (convert_tools [] fastmcp_tools))"

section \<open>The boundary of the client\<close>

text \<open>
  A request to \<^verbatim>\<open>openai_client.chat.completions.create\<close>: the model name, the
  messages (the history as it is at the call), and the two keyword arguments the first
  call of a turn passes and the follow-up call leaves out.
\<close>

record 's request =
  req_model :: string
  req_messages :: "message list"
  req_tools :: "'s tool_param list option"
  req_tool_choice :: "string option"

text \<open>
  What the client does to the outside, in order: a request to the model, or
  \<^verbatim>\<open>mcp_client.call_tool(tool_name, tool_args)\<close>.
\<close>

datatype ('a, 's) event =
    ModelCall "'s request"
  | RpcCall string 'a

text \<open>The response, as far as the client reads it: the messages of \<^verbatim>\<open>choices\<close>.\<close>

type_synonym response = "assistant_message list"

text \<open>
  The three library calls are parameters. The model and the tool server may answer the
  same request differently at different times, so both see the events so far.
  \<^verbatim>\<open>'a\<close> is what \<^verbatim>\<open>json.loads\<close> returns, \<^verbatim>\<open>'o\<close> what \<^verbatim>\<open>call_tool\<close> returns, and
  \<^verbatim>\<open>str_output\<close> is \<^verbatim>\<open>str\<close> on that value.
\<close>

record ('a, 'o, 's) env =
  create :: "('a, 's) event list \<Rightarrow> 's request \<Rightarrow> py_exception + response"
  json_loads :: "string \<Rightarrow> py_exception + 'a"
  call_tool :: "('a, 's) event list \<Rightarrow> string \<Rightarrow> 'a \<Rightarrow> py_exception + 'o"
  str_output :: "'o \<Rightarrow> string"

record ('a, 's) state =
  chat_history :: "message list"
  trace :: "('a, 's) event list"

text \<open>A step either goes on with a state, or an exception leaves it with the state it had.\<close>

type_synonym ('a, 's) result = "(py_exception \<times> ('a, 's) state) + ('a, 's) state"

definition LLM_MODEL :: string where
  "LLM_MODEL = ''qwen3:4b''"

section \<open>Conversation loop\<close>

text \<open>
  The request of line 78 (\<^verbatim>\<open>tools=available_openai_tools if available_openai_tools else
  None, tool_choice="auto"\<close>) and the request of line 122 (model and messages only).
\<close>

definition first_request :: "'s tool_param list \<Rightarrow> message list \<Rightarrow> 's request" where
  "first_request available_openai_tools msgs =
     \<lparr>req_model = LLM_MODEL, req_messages = msgs,
      req_tools = (if available_openai_tools = [] then None else Some available_openai_tools),
      req_tool_choice = Some ''auto''\<rparr>"

definition followup_request :: "message list \<Rightarrow> 's request" where
  "followup_request msgs =
     \<lparr>req_model = LLM_MODEL, req_messages = msgs, req_tools = None, req_tool_choice = None\<rparr>"

definition append_history :: "message \<Rightarrow> ('a, 's) state \<Rightarrow> ('a, 's) state" where
  "append_history m s = s\<lparr>chat_history := chat_history s @ [m]\<rparr>"

definition record_event :: "('a, 's) event \<Rightarrow> ('a, 's) state \<Rightarrow> ('a, 's) state" where
  "record_event ev s = s\<lparr>trace := trace s @ [ev]\<rparr>"

text \<open>\<^verbatim>\<open>chat_history.pop()\<close>: the last entry goes; on an empty list Python raises.\<close>

definition pop :: "('a, 's) state \<Rightarrow> ('a, 's) result" where
  "pop s =
     (if chat_history s = [] then Inl (IndexError ''pop from empty list'', s)
      else Inr (s\<lparr>chat_history := butlast (chat_history s)\<rparr>))"

text \<open>\<^verbatim>\<open>response.choices[0].message\<close>.\<close>

definition first_choice :: "response \<Rightarrow> py_exception + assistant_message" where
  "first_choice r =
     (case r of [] \<Rightarrow> Inl (IndexError ''list index out of range'') | m # _ \<Rightarrow> Inr m)"

text \<open>
  The two handlers of the \<^verbatim>\<open>try\<close> inside the \<^verbatim>\<open>for\<close> loop (lines 129 to 136). Both
  pop the history and append an assistant dictionary; they differ in its text, fixed for
  \<^verbatim>\<open>json.JSONDecodeError\<close>, and with \<^verbatim>\<open>str(e)\<close> at the end for any other exception.
\<close>

definition error_text :: "py_exception \<Rightarrow> string" where
  "error_text e =
     (case e of
        JSONDecodeError _ \<Rightarrow> ''I encountered an error processing the tool arguments.''
      | _ \<Rightarrow> ''I encountered an error while trying to use a tool: '' @ exc_str e)"

definition except_handlers :: "py_exception \<Rightarrow> ('a, 's) state \<Rightarrow> ('a, 's) result" where
  "except_handlers e s =
     (case pop s of
        Inl x \<Rightarrow> Inl x
      | Inr s' \<Rightarrow> Inr (append_history (AssistantDict (error_text e)) s'))"

text \<open>
  The body of \<^verbatim>\<open>for tool_call in assistant_message.tool_calls\<close> (lines 95 to 136), for
  one call: parse, call the tool, append the model's message and the tool's result, ask
  the model again with the history and nothing else, append its message. Whatever is
  raised on the way goes to the handlers, from the state reached so far.
\<close>

definition tool_call_body ::
  "('a, 'o, 's) env \<Rightarrow> assistant_message \<Rightarrow> tool_call \<Rightarrow> ('a, 's) state \<Rightarrow> ('a, 's) result" where
  "tool_call_body en assistant_msg tc s =
     (let tname = fc_name (tc_function tc);
          tool_args_str = fc_arguments (tc_function tc)
      in case json_loads en tool_args_str of
           Inl e \<Rightarrow> except_handlers e s
         | Inr tool_args \<Rightarrow>
             (let s1 = record_event (RpcCall tname tool_args) s
              in case call_tool en (trace s) tname tool_args of
                   Inl e \<Rightarrow> except_handlers e s1
                 | Inr tool_output \<Rightarrow>
                     (let s2 = append_history (ToolDict (tc_id tc) tname (str_output en tool_output))
                                 (append_history (CompletionMessage assistant_msg) s1);
                          rq = followup_request (chat_history s2);
                          s3 = record_event (ModelCall rq) s2
                      in case create en (trace s2) rq of
                           Inl e \<Rightarrow> except_handlers e s3
                         | Inr final_response \<Rightarrow>
                             (case first_choice final_response of
                                Inl e \<Rightarrow> except_handlers e s3
                              | Inr final_msg \<Rightarrow>
                                  Inr (append_history (CompletionMessage final_msg) s3)))))"

text \<open>The \<^verbatim>\<open>for\<close> loop: the calls in order, each from the state the one before left.\<close>

fun for_tool_calls ::
  "('a, 'o, 's) env \<Rightarrow> assistant_message \<Rightarrow> tool_call list \<Rightarrow> ('a, 's) state \<Rightarrow> ('a, 's) result" where
  "for_tool_calls en assistant_msg [] s = Inr s"
| "for_tool_calls en assistant_msg (tc # tcs) s =
     (case tool_call_body en assistant_msg tc s of
        Inl x \<Rightarrow> Inl x
      | Inr s' \<Rightarrow> for_tool_calls en assistant_msg tcs s')"

text \<open>\<^verbatim>\<open>if assistant_message.tool_calls:\<close> is false on \<^verbatim>\<open>None\<close> and on the empty list.\<close>

definition pending_calls :: "assistant_message \<Rightarrow> tool_call list" where
  "pending_calls m = (case am_tool_calls m of None \<Rightarrow> [] | Some tcs \<Rightarrow> tcs)"

text \<open>
  One pass of the \<^verbatim>\<open>while\<close> body after the exit test (lines 74 to 140), with the line
  read and the descriptors fetched at startup.
\<close>

definition turn ::
  "('a, 'o, 's) env \<Rightarrow> 's tool_param list \<Rightarrow> string \<Rightarrow> ('a, 's) state \<Rightarrow> ('a, 's) result" where
  "turn en available_openai_tools user_message s =
     (let s1 = append_history (UserDict user_message) s;
          rq = first_request available_openai_tools (chat_history s1);
          s2 = record_event (ModelCall rq) s1
      in case create en (trace s1) rq of
           Inl e \<Rightarrow> pop s2
         | Inr resp \<Rightarrow>
             (case first_choice resp of
                Inl e \<Rightarrow> Inl (e, s2)
              | Inr assistant_msg \<Rightarrow>
                  if pending_calls assistant_msg \<noteq> []
                  then for_tool_calls en assistant_msg (pending_calls assistant_msg) s2
                  else Inr (append_history (CompletionMessage assistant_msg) s2)))"

text \<open>
  \<^verbatim>\<open>str.lower\<close>, on the ASCII letters: no other character becomes one of the letters
  of \<^verbatim>\<open>'exit'\<close>, so the comparison of line 71 comes out the same.
\<close>

definition lower_char :: "char \<Rightarrow> char" where
  "lower_char c =
     (case map_of (zip ''ABCDEFGHIJKLMNOPQRSTUVWXYZ'' ''abcdefghijklmnopqrstuvwxyz'') c of
        Some d \<Rightarrow> d
      | None \<Rightarrow> c)"

definition lower :: "string \<Rightarrow> string" where
  "lower s = map lower_char s"

text \<open>
  How one pass of the \<^verbatim>\<open>while True\<close> loop ends: \<^verbatim>\<open>break\<close>, the next pass, or an
  exception that leaves the loop for the handler around the session.
\<close>

datatype ('a, 's) pass = Break "('a, 's) state" | Next "('a, 's) state" | Raised py_exception "('a, 's) state"

definition while_body ::
  "('a, 'o, 's) env \<Rightarrow> 's tool_param list \<Rightarrow> string \<Rightarrow> ('a, 's) state \<Rightarrow> ('a, 's) pass" where
  "while_body en available_openai_tools user_message s =
     (if lower user_message = ''exit'' then Break s
      else case turn en available_openai_tools user_message s of
             Inl (e, s') \<Rightarrow> Raised e s'
           | Inr s' \<Rightarrow> Next s')"


section \<open>Tool registry server\<close>

text \<open>\<^verbatim>\<open>def multiply(a: int, b: int) -> int: return a*b\<close>, on Python's unbounded integers.\<close>

definition multiply :: "int \<Rightarrow> int \<Rightarrow> int" where
  "multiply a b = a * b"

text \<open>\<^verbatim>\<open>str\<close> on a Python integer: the decimal digits, with a minus sign below zero.\<close>

function str_nat :: "nat \<Rightarrow> string" where
  "str_nat n =
     (if n < 10 then [''0123456789'' ! n]
      else str_nat (n div 10) @ [''0123456789'' ! (n mod 10)])"
  by pat_completeness auto
termination
  by (relation "measure id") auto

declare str_nat.simps [simp del]

definition str_int :: "int \<Rightarrow> string" where
  "str_int i = (if i < 0 then ''-'' @ str_nat (nat (- i)) else str_nat (nat i))"

section \<open>Notions used to state the properties\<close>

text \<open>The state a step ends with, whether it ended normally or by an exception.\<close>

definition state_of :: "('a, 's) result \<Rightarrow> ('a, 's) state" where
  "state_of r = (case r of Inl (e, s) \<Rightarrow> s | Inr s \<Rightarrow> s)"



text \<open>
  What a batch without failure adds to the history, given for each call the content of
  its tool result and the message of its follow-up response.
\<close>

fun appended_on_success ::
  "assistant_message \<Rightarrow> (tool_call \<times> string \<times> assistant_message) list \<Rightarrow> message list" where
  "appended_on_success assistant_msg [] = []"
| "appended_on_success assistant_msg ((tc, content, final_msg) # more_calls) =
     [CompletionMessage assistant_msg,
      ToolDict (tc_id tc) (fc_name (tc_function tc)) content,
      CompletionMessage final_msg] @ appended_on_success assistant_msg more_calls"

text \<open>
  What the outside answered to a batch in which nothing failed: for each call, in order,
  the value its arguments parsed to, the value the tool call returned, and the first
  message of the response to its follow-up request. The parse, the tool call and the
  request of a call are the ones made with the history \<^verbatim>\<open>h\<close> and the events \<^verbatim>\<open>tr\<close> that the
  calls before it have left.
\<close>

fun batch_answers ::
  "('a, 'o, 's) env \<Rightarrow> assistant_message \<Rightarrow>
   (tool_call \<times> 'a \<times> 'o \<times> assistant_message) list \<Rightarrow>
   message list \<Rightarrow> ('a, 's) event list \<Rightarrow> bool" where
  "batch_answers en assistant_msg [] h tr = True"
| "batch_answers en assistant_msg ((tc, tool_args, tool_output, final_msg) # more_calls) h tr =
     (json_loads en (fc_arguments (tc_function tc)) = Inr tool_args \<and>
      call_tool en tr (fc_name (tc_function tc)) tool_args = Inr tool_output \<and>
      (case create en (tr @ [RpcCall (fc_name (tc_function tc)) tool_args])
              (followup_request
                 (h @ [CompletionMessage assistant_msg,
                       ToolDict (tc_id tc) (fc_name (tc_function tc))
                         (str_output en tool_output)])) of
         Inl _ \<Rightarrow> False
       | Inr final_response \<Rightarrow>
           (case final_response of [] \<Rightarrow> False | m # _ \<Rightarrow> m = final_msg)) \<and>
      batch_answers en assistant_msg more_calls
        (h @ [CompletionMessage assistant_msg,
              ToolDict (tc_id tc) (fc_name (tc_function tc)) (str_output en tool_output),
              CompletionMessage final_msg])
        (tr @ [RpcCall (fc_name (tc_function tc)) tool_args,
               ModelCall (followup_request
                 (h @ [CompletionMessage assistant_msg,
                       ToolDict (tc_id tc) (fc_name (tc_function tc))
                         (str_output en tool_output)]))]))"

text \<open>
  The events of such a batch: for each call the tool call with the parsed arguments,
  then the follow-up request, whose messages are the history up to the tool result of
  that call.
\<close>

fun batch_events ::
  "('a, 'o, 's) env \<Rightarrow> assistant_message \<Rightarrow>
   (tool_call \<times> 'a \<times> 'o \<times> assistant_message) list \<Rightarrow>
   message list \<Rightarrow> ('a, 's) event list" where
  "batch_events en assistant_msg [] h = []"
| "batch_events en assistant_msg ((tc, tool_args, tool_output, final_msg) # more_calls) h =
     [RpcCall (fc_name (tc_function tc)) tool_args,
      ModelCall (followup_request
        (h @ [CompletionMessage assistant_msg,
              ToolDict (tc_id tc) (fc_name (tc_function tc)) (str_output en tool_output)]))] @
     batch_events en assistant_msg more_calls
       (h @ [CompletionMessage assistant_msg,
             ToolDict (tc_id tc) (fc_name (tc_function tc)) (str_output en tool_output),
             CompletionMessage final_msg])"

text \<open>The content of the tool result and the follow-up message of each call.\<close>

definition batch_results ::
  "('a, 'o, 's) env \<Rightarrow> (tool_call \<times> 'a \<times> 'o \<times> assistant_message) list \<Rightarrow>
   (tool_call \<times> string \<times> assistant_message) list" where
  "batch_results en xs =
     map (\<lambda>(tc, tool_args, tool_output, final_msg). (tc, str_output en tool_output, final_msg)) xs"

definition is_tool_result :: "message \<Rightarrow> bool" where
  "is_tool_result m = (case m of ToolDict _ _ _ \<Rightarrow> True | _ \<Rightarrow> False)"

definition is_model_call :: "('a, 's) event \<Rightarrow> bool" where
  "is_model_call ev = (case ev of ModelCall _ \<Rightarrow> True | _ \<Rightarrow> False)"

section \<open>A scripted session\<close>

text \<open>
  A model, a parser and a tool client that answer from a script, to run the loop on
  concrete inputs. The model answers the first request of a turn by what the user wrote,
  and every follow-up request by the same closing message.
\<close>

definition call_6_7 :: tool_call where
  \<open>call_6_7 = \<lparr>tc_id = ''call_1'',
               tc_function = \<lparr>fc_name = ''multiply'', fc_arguments = ''{"a": 6, "b": 7}''\<rparr>\<rparr>\<close>

definition call_malformed :: tool_call where
  \<open>call_malformed = \<lparr>tc_id = ''call_2'',
               tc_function = \<lparr>fc_name = ''multiply'', fc_arguments = ''{"a": 6, ''\<rparr>\<rparr>\<close>

definition call_2_3 :: tool_call where
  \<open>call_2_3 = \<lparr>tc_id = ''call_3'',
               tc_function = \<lparr>fc_name = ''multiply'', fc_arguments = ''{"a": 2, "b": 3}''\<rparr>\<rparr>\<close>

definition tool_call_message :: "tool_call list \<Rightarrow> assistant_message" where
  "tool_call_message tcs = \<lparr>am_content = None, am_tool_calls = Some tcs\<rparr>"

definition text_message :: "string \<Rightarrow> assistant_message" where
  "text_message txt = \<lparr>am_content = Some txt, am_tool_calls = None\<rparr>"

definition scripted_json_loads :: "string \<Rightarrow> py_exception + (string \<times> int) list" where
  \<open>scripted_json_loads payload =
     (if payload = ''{"a": 6, "b": 7}'' then Inr [(''a'', 6), (''b'', 7)]
      else if payload = ''{"a": 2, "b": 3}'' then Inr [(''a'', 2), (''b'', 3)]
      else Inl (JSONDecodeError ''Expecting property name''))\<close>

definition scripted_reply :: "string \<Rightarrow> py_exception + response" where
  "scripted_reply user_text =
     (if user_text = ''one'' then Inr [tool_call_message [call_6_7]]
      else if user_text = ''good bad'' then Inr [tool_call_message [call_6_7, call_malformed]]
      else if user_text = ''bad good'' then Inr [tool_call_message [call_malformed, call_2_3]]
      else if user_text = ''good good'' then Inr [tool_call_message [call_6_7, call_2_3]]
      else if user_text = ''offline'' then Inl (OtherException ''Connection error.'')
      else Inr [text_message ''Hello.''])"

definition scripted_create ::
  "((string \<times> int) list, unit) event list \<Rightarrow> unit request \<Rightarrow> py_exception + response" where
  "scripted_create tr rq =
     (if req_tool_choice rq = None then Inr [text_message ''Done.'']
      else (case rev (req_messages rq) of
              UserDict user_text # _ \<Rightarrow> scripted_reply user_text
            | _ \<Rightarrow> Inr [text_message ''Hello.'']))"

text \<open>
  The tool client of the script. It answers the two calls the scripted model asks for
  with the value \<^verbatim>\<open>multiply\<close> returns, and raises on any other call. It is a stand-in:
  how the tool server checks the arguments of a call, and the object in which the
  client hands back a result, belong to the framework and are not in the sources.
\<close>

definition scripted_call_tool :: "string \<Rightarrow> (string \<times> int) list \<Rightarrow> py_exception + int" where
  "scripted_call_tool tname tool_args =
     (if tname = ''multiply'' \<and> tool_args = [(''a'', 6), (''b'', 7)] then Inr (multiply 6 7)
      else if tname = ''multiply'' \<and> tool_args = [(''a'', 2), (''b'', 3)] then Inr (multiply 2 3)
      else Inl (OtherException ''Tool call failed''))"

text \<open>
  In this session the result of a tool call is the bare integer and \<^verbatim>\<open>str\<close> gives its
  digits. What is run on it does not depend on the content of a tool result.
\<close>

definition scripted_env :: "((string \<times> int) list, int, unit) env" where
  "scripted_env =
     \<lparr>create = scripted_create,
      json_loads = scripted_json_loads,
      call_tool = (\<lambda>tr. scripted_call_tool),
      str_output = str_int\<rparr>"



text \<open>
  The same session with a tool client that hands back its result inside an object, as
  the \<^verbatim>\<open>fastmcp\<close> client does (\<^verbatim>\<open>call_tool\<close> returns a \<^verbatim>\<open>CallToolResult\<close>). \<^verbatim>\<open>str\<close> of
  such an object is its printed form, the class name with the fields in brackets; of
  the fields only the one that holds the value is kept here.
\<close>

datatype call_tool_result = CallToolResult (data: int)

definition str_call_tool_result :: "call_tool_result \<Rightarrow> string" where
  "str_call_tool_result r = ''CallToolResult(data='' @ str_int (data r) @ '')''"

definition result_object_env :: "((string \<times> int) list, call_tool_result, unit) env" where
  "result_object_env =
     \<lparr>create = scripted_create,
      json_loads = scripted_json_loads,
      call_tool = (\<lambda>tr tname tool_args. map_sum id CallToolResult (scripted_call_tool tname tool_args)),
      str_output = str_call_tool_result\<rparr>"

definition empty_state :: "((string \<times> int) list, unit) state" where
  "empty_state = \<lparr>chat_history = [], trace = []\<rparr>"

text \<open>
  The state in which the \<^verbatim>\<open>for\<close> loop starts when the session began empty and the user
  wrote the line: the user message appended, the first request made.
\<close>

definition state_after_request :: "string \<Rightarrow> ((string \<times> int) list, unit) state" where
  "state_after_request user_text =
     \<lparr>chat_history = [UserDict user_text],
      trace = [ModelCall (first_request [] [UserDict user_text])]\<rparr>"

section \<open>Proofs: tool bridge\<close>

lemma convert_tools_length:
  "length (convert_tools acc ts) = length acc + length ts"
  by (induction ts arbitrary: acc) simp_all

lemma convert_tools_prefix:
  "i < length acc \<Longrightarrow> convert_tools acc ts ! i = acc ! i"
  by (induction ts arbitrary: acc) (simp_all add: nth_append)

lemma convert_tools_nth:
  "i < length ts \<Longrightarrow>
   convert_tools acc ts ! (length acc + i) =
     \<lparr>tp_type = ''function'',
      tp_function = \<lparr>fd_name = tool_name (ts ! i),
                      fd_description = tool_description (ts ! i),
                      fd_parameters = tool_inputSchema (ts ! i)\<rparr>\<rparr>"
proof (induction ts arbitrary: acc i)
  case Nil
  then show ?case by simp
next
  case (Cons t ts)
  show ?case
  proof (cases i)
    case 0
    then show ?thesis
      by (simp add: convert_tools_prefix)
  next
    case (Suc j)
    with Cons.prems have "j < length ts" by simp
    from Cons.IH [OF this, of "acc @ [\<lparr>tp_type = ''function'',
          tp_function = \<lparr>fd_name = tool_name t,
                          fd_description = tool_description t,
                          fd_parameters = tool_inputSchema t\<rparr>\<rparr>]"]
    show ?thesis using Suc by simp
  qed
qed

text \<open>
  C8. For every list of tools the server returns, the bridge returns a list of the same
  length in the same order; the i-th descriptor has type "function", and the name, the
  description and the parameters of the i-th tool, the schema passed through as it is.
  An empty list of tools gives an empty list of descriptors.
\<close>

theorem tool_bridge_descriptors:
  "\<exists>ds. get_openai_compatible_tools (Inr specs) = Inr ds \<and>
        length ds = length specs \<and>
        (\<forall>i < length specs.
           tp_type (ds ! i) = ''function'' \<and>
           fd_name (tp_function (ds ! i)) = tool_name (specs ! i) \<and>
           fd_description (tp_function (ds ! i)) = tool_description (specs ! i) \<and>
           fd_parameters (tp_function (ds ! i)) = tool_inputSchema (specs ! i)) \<and>
        (specs = [] \<longrightarrow> ds = [])"
proof -
  let ?ds = "convert_tools [] specs"
  have len: "length ?ds = length specs"
    by (simp add: convert_tools_length)
  have "\<And>i. i < length specs \<Longrightarrow>
        ?ds ! i = \<lparr>tp_type = ''function'',
          tp_function = \<lparr>fd_name = tool_name (specs ! i),
                          fd_description = tool_description (specs ! i),
                          fd_parameters = tool_inputSchema (specs ! i)\<rparr>\<rparr>"
    using convert_tools_nth [of _ specs "[]"] by simp
  then have "\<forall>i < length specs.
           tp_type (?ds ! i) = ''function'' \<and>
           fd_name (tp_function (?ds ! i)) = tool_name (specs ! i) \<and>
           fd_description (tp_function (?ds ! i)) = tool_description (specs ! i) \<and>
           fd_parameters (tp_function (?ds ! i)) = tool_inputSchema (specs ! i)"
    by simp
  moreover have "specs = [] \<longrightarrow> ?ds = []" by simp
  ultimately show ?thesis
    using len by (simp add: get_openai_compatible_tools_def)
qed

theorem tool_bridge_descriptors_witness:
  "\<exists>ds. get_openai_compatible_tools
          (Inr [\<lparr>tool_name = ''multiply'', tool_description = None,
                 tool_inputSchema = ''schema''\<rparr>]) = Inr ds \<and>
        length ds = 1 \<and>
        tp_type (ds ! 0) = ''function'' \<and>
        fd_name (tp_function (ds ! 0)) = ''multiply'' \<and>
        fd_description (tp_function (ds ! 0)) = None \<and>
        fd_parameters (tp_function (ds ! 0)) = ''schema''"
  using tool_bridge_descriptors
    [of "[\<lparr>tool_name = ''multiply'', tool_description = None,
            tool_inputSchema = ''schema''\<rparr>]"]
  by simp

section \<open>Proofs: conversation loop\<close>

lemmas state_ops = append_history_def record_event_def pop_def

lemmas scripted_defs =
  scripted_env_def scripted_create_def scripted_reply_def scripted_json_loads_def
  scripted_call_tool_def multiply_def tool_call_message_def text_message_def
  call_6_7_def call_malformed_def call_2_3_def empty_state_def state_after_request_def
  first_request_def followup_request_def LLM_MODEL_def

lemma except_handlers_trace: "trace (state_of (except_handlers e s)) = trace s"
  by (simp add: except_handlers_def state_ops state_of_def)

lemma except_handlers_nonempty:
  "chat_history s \<noteq> [] \<Longrightarrow>
   except_handlers e s =
     Inr (s\<lparr>chat_history := butlast (chat_history s) @ [AssistantDict (error_text e)]\<rparr>)"
  by (simp add: except_handlers_def state_ops)

lemma tool_call_body_trace:
  "\<exists>evs. trace (state_of (tool_call_body en am tc s)) = trace s @ evs \<and>
         (\<forall>rq. ModelCall rq \<in> set evs \<longrightarrow> req_tools rq = None \<and> req_tool_choice rq = None)"
  by (auto simp add: tool_call_body_def Let_def state_ops state_of_def
        except_handlers_def followup_request_def
      split: sum.splits)

lemma for_tool_calls_trace:
  "\<exists>evs. trace (state_of (for_tool_calls en am tcs s)) = trace s @ evs \<and>
         (\<forall>rq. ModelCall rq \<in> set evs \<longrightarrow> req_tools rq = None \<and> req_tool_choice rq = None)"
proof (induction tcs arbitrary: s)
  case Nil
  show ?case by (simp add: state_of_def)
next
  case (Cons tc tcs)
  obtain evs1 where e1: "trace (state_of (tool_call_body en am tc s)) = trace s @ evs1"
    and n1: "\<forall>rq. ModelCall rq \<in> set evs1 \<longrightarrow> req_tools rq = None \<and> req_tool_choice rq = None"
    using tool_call_body_trace by blast
  show ?case
  proof (cases "tool_call_body en am tc s")
    case (Inl x)
    then show ?thesis using e1 n1 by auto
  next
    case (Inr s1)
    obtain evs2 where e2: "trace (state_of (for_tool_calls en am tcs s1)) = trace s1 @ evs2"
      and n2: "\<forall>rq. ModelCall rq \<in> set evs2 \<longrightarrow> req_tools rq = None \<and> req_tool_choice rq = None"
      using Cons.IH by blast
    from Inr e1 have "trace s1 = trace s @ evs1" by (simp add: state_of_def)
    with e2 have "trace (state_of (for_tool_calls en am (tc # tcs) s)) = trace s @ (evs1 @ evs2)"
      using Inr by simp
    moreover have "\<forall>rq. ModelCall rq \<in> set (evs1 @ evs2) \<longrightarrow> req_tools rq = None \<and> req_tool_choice rq = None"
      using n1 n2 by auto
    ultimately show ?thesis by blast
  qed
qed


text \<open>
  C4. For every history, if the model call made after appending the user message fails
  (any exception of the call), the turn ends normally with the history it started with:
  the user message is gone and no assistant message was appended. Exactly one request
  was made, so nothing is retried, and the loop goes to its next pass.
\<close>

theorem transport_failure_discards_turn:
  assumes "create en (trace s) (first_request tls (chat_history s @ [UserDict u])) = Inl e"
  shows "turn en tls u s =
           Inr (s\<lparr>trace := trace s @
                    [ModelCall (first_request tls (chat_history s @ [UserDict u]))]\<rparr>) \<and>
         chat_history (state_of (turn en tls u s)) = chat_history s \<and>
         (lower u \<noteq> ''exit'' \<longrightarrow>
            while_body en tls u s =
              Next (s\<lparr>trace := trace s @
                    [ModelCall (first_request tls (chat_history s @ [UserDict u]))]\<rparr>))"
  using assms by (simp add: turn_def state_ops state_of_def while_body_def)

theorem transport_failure_discards_turn_witness:
  "create scripted_env (trace empty_state)
     (first_request [] (chat_history empty_state @ [UserDict ''offline''])) =
     Inl (OtherException ''Connection error.'') \<and>
   turn scripted_env [] ''offline'' empty_state =
     Inr \<lparr>chat_history = [],
          trace = [ModelCall (first_request [] [UserDict ''offline''])]\<rparr> \<and>
   lower ''offline'' \<noteq> ''exit'' \<and>
   while_body scripted_env [] ''offline'' empty_state =
     Next \<lparr>chat_history = [],
           trace = [ModelCall (first_request [] [UserDict ''offline''])]\<rparr>"
proof -
  have h: "create scripted_env (trace empty_state)
     (first_request [] (chat_history empty_state @ [UserDict ''offline''])) =
     Inl (OtherException ''Connection error.'')"
    by (simp add: scripted_defs)
  have l: "lower ''offline'' \<noteq> ''exit''"
    by (simp add: lower_def)
  show ?thesis
    using h l transport_failure_discards_turn [OF h]
    by (simp add: empty_state_def)
qed

text \<open>
  C6. For every history, if the model call succeeds and the first choice carries no tool
  calls, the history after the turn is the old history, then the user message, then that
  one assistant message; the old entries are a prefix, none removed or changed.
\<close>

theorem plain_text_reply_appends_one_message:
  assumes "create en (trace s) (first_request tls (chat_history s @ [UserDict u])) = Inr (m # others)"
    and "pending_calls m = []"
  shows "turn en tls u s =
           Inr (s\<lparr>chat_history := chat_history s @ [UserDict u, CompletionMessage m],
                  trace := trace s @
                    [ModelCall (first_request tls (chat_history s @ [UserDict u]))]\<rparr>) \<and>
         take (length (chat_history s)) (chat_history (state_of (turn en tls u s))) =
           chat_history s"
  using assms by (simp add: turn_def state_ops first_choice_def state_of_def)

theorem plain_text_reply_appends_one_message_witness:
  "create scripted_env (trace empty_state)
     (first_request [] (chat_history empty_state @ [UserDict ''hi''])) =
     Inr [text_message ''Hello.''] \<and>
   pending_calls (text_message ''Hello.'') = [] \<and>
   turn scripted_env [] ''hi'' empty_state =
     Inr \<lparr>chat_history = [UserDict ''hi'', CompletionMessage (text_message ''Hello.'')],
          trace = [ModelCall (first_request [] [UserDict ''hi''])]\<rparr>"
proof -
  have h: "create scripted_env (trace empty_state)
     (first_request [] (chat_history empty_state @ [UserDict ''hi''])) =
     Inr [text_message ''Hello.'']"
    by (simp add: scripted_defs)
  have p: "pending_calls (text_message ''Hello.'') = []"
    by (simp add: pending_calls_def text_message_def)
  show ?thesis
    using h p plain_text_reply_appends_one_message [OF h p]
    by (simp add: empty_state_def)
qed













section \<open>Proofs: one tool call\<close>

lemma tool_call_body_parse_failure:
  assumes "json_loads en (fc_arguments (tc_function tc)) = Inl e"
  shows "tool_call_body en am tc s = except_handlers e s"
  using assms by (simp add: tool_call_body_def Let_def)


lemma tool_call_body_success:
  assumes "json_loads en (fc_arguments (tc_function tc)) = Inr args"
    and "call_tool en (trace s) (fc_name (tc_function tc)) args = Inr out"
    and "create en (trace s @ [RpcCall (fc_name (tc_function tc)) args])
           (followup_request
              (chat_history s @
               [CompletionMessage am,
                ToolDict (tc_id tc) (fc_name (tc_function tc)) (str_output en out)])) =
         Inr (fm # others)"
  shows "tool_call_body en am tc s =
           Inr (s\<lparr>chat_history := chat_history s @
                    [CompletionMessage am,
                     ToolDict (tc_id tc) (fc_name (tc_function tc)) (str_output en out),
                     CompletionMessage fm],
                  trace := trace s @
                    [RpcCall (fc_name (tc_function tc)) args,
                     ModelCall (followup_request
                       (chat_history s @
                        [CompletionMessage am,
                         ToolDict (tc_id tc) (fc_name (tc_function tc))
                           (str_output en out)]))]\<rparr>)"
  using assms by (simp add: tool_call_body_def Let_def state_ops first_choice_def)




section \<open>Proofs: a batch without failure\<close>


lemma appended_on_success_tool_results:
  "filter is_tool_result (appended_on_success am xs) =
     map (\<lambda>(tc, content, fm). ToolDict (tc_id tc) (fc_name (tc_function tc)) content) xs"
  by (induction xs) (auto simp add: is_tool_result_def)

lemma appended_on_success_nth:
  "k < length xs \<Longrightarrow>
   appended_on_success am xs ! (3 * k) = CompletionMessage am \<and>
   appended_on_success am xs ! (3 * k + 1) =
     ToolDict (tc_id (fst (xs ! k))) (fc_name (tc_function (fst (xs ! k)))) (fst (snd (xs ! k))) \<and>
   appended_on_success am xs ! (3 * k + 2) = CompletionMessage (snd (snd (xs ! k)))"
proof (induction xs arbitrary: k)
  case Nil
  then show ?case by simp
next
  case (Cons x xs)
  obtain tc content fm where x: "x = (tc, content, fm)" by (cases x)
  show ?case
  proof (cases k)
    case 0
    then show ?thesis using x by simp
  next
    case (Suc j)
    with Cons.prems have j: "j < length xs" by simp
    have i0: "3 * k = Suc (Suc (Suc (3 * j)))" using Suc by simp
    have i1: "3 * k + 1 = Suc (Suc (Suc (3 * j + 1)))" using Suc by simp
    have i2: "3 * k + 2 = Suc (Suc (Suc (3 * j + 2)))" using Suc by simp
    show ?thesis
      using Cons.IH [OF j] x Suc unfolding i0 i1 i2 by simp
  qed
qed

lemma appended_on_success_empty:
  "appended_on_success am xs = [] \<longleftrightarrow> xs = []"
  by (cases xs) auto

lemma appended_on_success_last:
  "xs \<noteq> [] \<Longrightarrow> last (appended_on_success am xs) = CompletionMessage (snd (snd (last xs)))"
  by (induction xs) (auto simp add: appended_on_success_empty)



lemma batch_results_Cons:
  "batch_results en ((tc, args, out, fm) # xs) = (tc, str_output en out, fm) # batch_results en xs"
  by (simp add: batch_results_def)

lemma batch_results_length: "length (batch_results en xs) = length xs"
  by (simp add: batch_results_def)

lemma batch_events_model_calls:
  "length (filter is_model_call (batch_events en am xs h)) = length xs \<and>
   (\<forall>rq. ModelCall rq \<in> set (batch_events en am xs h) \<longrightarrow>
      req_tools rq = None \<and> req_tool_choice rq = None)"
proof (induction xs arbitrary: h)
  case Nil
  show ?case by simp
next
  case (Cons x xs)
  obtain tc args out fm where x: "x = (tc, args, out, fm)" by (cases x)
  show ?case
    using Cons.IH unfolding x
    by (auto simp add: is_model_call_def followup_request_def)
qed

lemma for_tool_calls_batch_answers:
  assumes "batch_answers en am xs (chat_history s) (trace s)"
  shows "for_tool_calls en am (map fst xs) s =
           Inr (s\<lparr>chat_history :=
                    chat_history s @ appended_on_success am (batch_results en xs),
                  trace := trace s @ batch_events en am xs (chat_history s)\<rparr>)"
  using assms
proof (induction xs arbitrary: s)
  case Nil
  show ?case by (simp add: batch_results_def)
next
  case (Cons x xs)
  obtain tc args out fm where x: "x = (tc, args, out, fm)" by (cases x)
  let ?name = "fc_name (tc_function tc)"
  let ?msgs = "chat_history s @
                 [CompletionMessage am, ToolDict (tc_id tc) ?name (str_output en out)]"
  let ?s1 = "s\<lparr>chat_history := ?msgs @ [CompletionMessage fm],
               trace := trace s @ [RpcCall ?name args, ModelCall (followup_request ?msgs)]\<rparr>"
  from Cons.prems x have p: "json_loads en (fc_arguments (tc_function tc)) = Inr args"
    and c: "call_tool en (trace s) ?name args = Inr out"
    and f: "(case create en (trace s @ [RpcCall ?name args]) (followup_request ?msgs) of
              Inl _ \<Rightarrow> False
            | Inr final_response \<Rightarrow>
                (case final_response of [] \<Rightarrow> False | m # _ \<Rightarrow> m = fm))"
    and r: "batch_answers en am xs (chat_history ?s1) (trace ?s1)"
    by simp_all
  from f obtain others where
    f': "create en (trace s @ [RpcCall ?name args]) (followup_request ?msgs) = Inr (fm # others)"
    by (auto split: sum.splits list.splits)
  have body: "tool_call_body en am tc s = Inr ?s1"
    using tool_call_body_success [OF p c f'] by simp
  show ?case
    using Cons.IH [OF r] body unfolding x
    by (simp add: batch_results_Cons)
qed

text \<open>
  C5. Take a batch of N calls in which every parse, every tool invocation and every
  follow-up request succeeds, and name what each returned: the arguments, the value of
  the tool, the first message of the follow-up response. Then the loop ends normally
  and the history grows by one segment per call, in the order of the calls: the model's
  message, the tool result of that call, whose content is \<^verbatim>\<open>str\<close> of the value its tool
  call returned, and the message its follow-up request returned. So exactly N tool
  results are appended, in request order, each followed by the follow-up message of
  its call (the last entry of the history is the last of them). The events are, per
  call, the tool call and one follow-up request; the N requests carry the history up to
  the tool result, and neither tools nor a tool choice.
\<close>

theorem batch_without_failure:
  assumes "batch_answers en am xs (chat_history s) (trace s)"
  shows "for_tool_calls en am (map fst xs) s =
           Inr (s\<lparr>chat_history :=
                    chat_history s @ appended_on_success am (batch_results en xs),
                  trace := trace s @ batch_events en am xs (chat_history s)\<rparr>) \<and>
         filter is_tool_result (appended_on_success am (batch_results en xs)) =
           map (\<lambda>(tc, tool_args, tool_output, final_msg).
                  ToolDict (tc_id tc) (fc_name (tc_function tc)) (str_output en tool_output)) xs \<and>
         length (filter is_tool_result (appended_on_success am (batch_results en xs))) =
           length xs \<and>
         (\<forall>k < length xs.
            appended_on_success am (batch_results en xs) ! (3 * k + 2) =
              CompletionMessage (snd (snd (snd (xs ! k))))) \<and>
         (xs \<noteq> [] \<longrightarrow>
            last (chat_history s @ appended_on_success am (batch_results en xs)) =
              CompletionMessage (snd (snd (snd (last xs))))) \<and>
         length (filter is_model_call (batch_events en am xs (chat_history s))) = length xs \<and>
         (\<forall>rq. ModelCall rq \<in> set (batch_events en am xs (chat_history s)) \<longrightarrow>
            req_tools rq = None \<and> req_tool_choice rq = None)"
proof -
  have f: "filter is_tool_result (appended_on_success am (batch_results en xs)) =
           map (\<lambda>(tc, tool_args, tool_output, final_msg).
                  ToolDict (tc_id tc) (fc_name (tc_function tc)) (str_output en tool_output)) xs"
    unfolding appended_on_success_tool_results
    by (simp add: batch_results_def case_prod_beta)
  have n: "\<forall>k < length xs.
            appended_on_success am (batch_results en xs) ! (3 * k + 2) =
              CompletionMessage (snd (snd (snd (xs ! k))))"
  proof (intro allI impI)
    fix k assume k: "k < length xs"
    then have "k < length (batch_results en xs)" by (simp add: batch_results_length)
    from appended_on_success_nth [OF this, of am]
    show "appended_on_success am (batch_results en xs) ! (3 * k + 2) =
            CompletionMessage (snd (snd (snd (xs ! k))))"
      using k by (simp add: batch_results_def case_prod_beta)
  qed
  have l: "xs \<noteq> [] \<longrightarrow>
            last (chat_history s @ appended_on_success am (batch_results en xs)) =
              CompletionMessage (snd (snd (snd (last xs))))"
  proof
    assume ne: "xs \<noteq> []"
    then have "batch_results en xs \<noteq> []" by (simp add: batch_results_def)
    then show "last (chat_history s @ appended_on_success am (batch_results en xs)) =
              CompletionMessage (snd (snd (snd (last xs))))"
      using ne
      by (simp add: appended_on_success_empty appended_on_success_last batch_results_def
          last_map case_prod_beta)
  qed
  show ?thesis
    using for_tool_calls_batch_answers [OF assms] f n l batch_events_model_calls [of en am xs]
    by simp
qed




theorem batch_without_failure_witness:
  "batch_answers scripted_env (tool_call_message [call_6_7, call_2_3])
     [(call_6_7, [(''a'', 6), (''b'', 7)], 42, text_message ''Done.''),
      (call_2_3, [(''a'', 2), (''b'', 3)], 6, text_message ''Done.'')]
     (chat_history (state_after_request ''good good''))
     (trace (state_after_request ''good good'')) \<and>
   for_tool_calls scripted_env (tool_call_message [call_6_7, call_2_3]) [call_6_7, call_2_3]
     (state_after_request ''good good'') =
     Inr \<lparr>chat_history =
            [UserDict ''good good'',
             CompletionMessage (tool_call_message [call_6_7, call_2_3]),
             ToolDict ''call_1'' ''multiply'' ''42'',
             CompletionMessage (text_message ''Done.''),
             CompletionMessage (tool_call_message [call_6_7, call_2_3]),
             ToolDict ''call_3'' ''multiply'' ''6'',
             CompletionMessage (text_message ''Done.'')],
          trace =
            [ModelCall (first_request [] [UserDict ''good good'']),
             RpcCall ''multiply'' [(''a'', 6), (''b'', 7)],
             ModelCall (followup_request
               [UserDict ''good good'',
                CompletionMessage (tool_call_message [call_6_7, call_2_3]),
                ToolDict ''call_1'' ''multiply'' ''42'']),
             RpcCall ''multiply'' [(''a'', 2), (''b'', 3)],
             ModelCall (followup_request
               [UserDict ''good good'',
                CompletionMessage (tool_call_message [call_6_7, call_2_3]),
                ToolDict ''call_1'' ''multiply'' ''42'',
                CompletionMessage (text_message ''Done.''),
                CompletionMessage (tool_call_message [call_6_7, call_2_3]),
                ToolDict ''call_3'' ''multiply'' ''6''])]\<rparr>"
proof -
  let ?xs = "[(call_6_7, [(''a'', 6), (''b'', 7 :: int)], 42 :: int, text_message ''Done.''),
      (call_2_3, [(''a'', 2), (''b'', 3)], 6, text_message ''Done.'')]"
  have h: "batch_answers scripted_env (tool_call_message [call_6_7, call_2_3]) ?xs
     (chat_history (state_after_request ''good good''))
     (trace (state_after_request ''good good''))"
    by (simp add: scripted_defs)
  have m: "map fst ?xs = [call_6_7, call_2_3]" by simp
  from conjunct1 [OF batch_without_failure [OF h]] h
  show ?thesis
    unfolding m
    by (simp add: batch_results_def str_int_def str_nat.simps scripted_env_def
        state_after_request_def call_6_7_def call_2_3_def)
qed


section \<open>Proofs: failures inside a batch\<close>

text \<open>The definitions a run of the scripted session unfolds.\<close>

lemmas run_defs =
  turn_def tool_call_body_def Let_def state_ops first_choice_def pending_calls_def
  except_handlers_def error_text_def state_of_def str_int_def str_nat.simps scripted_defs

lemma tool_call_body_dispatch:
  assumes "json_loads en (fc_arguments (tc_function tc)) = Inr args"
  shows "\<exists>evs. trace (state_of (tool_call_body en am tc s)) =
           trace s @ RpcCall (fc_name (tc_function tc)) args # evs"
  using assms
  by (auto simp add: tool_call_body_def Let_def state_ops state_of_def except_handlers_def
      split: sum.splits)

lemma for_tool_calls_dispatch:
  assumes "json_loads en (fc_arguments (tc_function tc)) = Inr args"
  shows "\<exists>evs. trace (state_of (for_tool_calls en am (tc # tcs) s)) =
           trace s @ RpcCall (fc_name (tc_function tc)) args # evs"
proof -
  from tool_call_body_dispatch [OF assms] obtain evs1 where
    e1: "trace (state_of (tool_call_body en am tc s)) =
           trace s @ RpcCall (fc_name (tc_function tc)) args # evs1"
    by blast
  show ?thesis
  proof (cases "tool_call_body en am tc s")
    case (Inl x)
    then show ?thesis using e1 by auto
  next
    case (Inr s1)
    obtain evs2 where "trace (state_of (for_tool_calls en am tcs s1)) = trace s1 @ evs2"
      using for_tool_calls_trace by blast
    moreover from Inr e1 have "trace s1 = trace s @ RpcCall (fc_name (tc_function tc)) args # evs1"
      by (simp add: state_of_def)
    ultimately show ?thesis using Inr by simp
  qed
qed

text \<open>
  C1. When a call fails inside the \<^verbatim>\<open>for\<close> loop, the entry the handler removes is meant to
  be the user message of the turn (the handlers say \<^verbatim>\<open># Remove the last user message\<close>),
  also when earlier calls of the batch have appended their messages. The code removes the
  last entry, whatever it is: in the batch below the first call goes through and the
  second has malformed arguments, and \<^verbatim>\<open>pop\<close> takes the follow-up answer of the first call.
  The user message stays, and the tool result of the first call is left without the
  answer that followed it.
\<close>

theorem failure_after_success_pops_followup_message:
  "turn scripted_env [] ''good bad'' empty_state =
     Inr \<lparr>chat_history =
            [UserDict ''good bad'',
             CompletionMessage (tool_call_message [call_6_7, call_malformed]),
             ToolDict ''call_1'' ''multiply'' ''42'',
             AssistantDict ''I encountered an error processing the tool arguments.''],
          trace =
            [ModelCall (first_request [] [UserDict ''good bad'']),
             RpcCall ''multiply'' [(''a'', 6), (''b'', 7)],
             ModelCall (followup_request
               [UserDict ''good bad'',
                CompletionMessage (tool_call_message [call_6_7, call_malformed]),
                ToolDict ''call_1'' ''multiply'' ''42''])]\<rparr>"
  by (simp add: run_defs)

text \<open>
  C2, as the code has it. When \<^verbatim>\<open>json.loads\<close> raises \<^verbatim>\<open>JSONDecodeError\<close> on the arguments
  of the first call of a batch, the history ending with the user message of the turn,
  that user message is removed and one assistant message with the fixed text is
  appended; no tool call and no model call is made for it (the events are unchanged).
  The batch is not aborted: the outcome of the loop is the outcome of the loop over the
  remaining calls from the state so reached, and when the arguments of the next call
  parse, that call is sent to the tool server.
\<close>

theorem parse_failure_of_first_call:
  assumes "json_loads en (fc_arguments (tc_function tc)) = Inl (JSONDecodeError msg)"
    and "chat_history s = h @ [UserDict u]"
  shows "tool_call_body en am tc s =
           Inr (s\<lparr>chat_history :=
                    h @ [AssistantDict
                           ''I encountered an error processing the tool arguments.'']\<rparr>) \<and>
         for_tool_calls en am (tc # tcs) s =
           for_tool_calls en am tcs
             (s\<lparr>chat_history :=
                   h @ [AssistantDict
                          ''I encountered an error processing the tool arguments.'']\<rparr>) \<and>
         (tcs = next_call # later_calls \<and>
          json_loads en (fc_arguments (tc_function next_call)) = Inr next_args \<longrightarrow>
            (\<exists>evs. trace (state_of (for_tool_calls en am (tc # tcs) s)) =
               trace s @ RpcCall (fc_name (tc_function next_call)) next_args # evs))"
proof -
  let ?s1 = "s\<lparr>chat_history :=
                   h @ [AssistantDict
                          ''I encountered an error processing the tool arguments.'']\<rparr>"
  have ne: "chat_history s \<noteq> []" using assms(2) by simp
  have "tool_call_body en am tc s = except_handlers (JSONDecodeError msg) s"
    using assms(1) by (rule tool_call_body_parse_failure)
  also have "\<dots> = Inr ?s1"
    using except_handlers_nonempty [OF ne, where e = "JSONDecodeError msg"] assms(2)
    by (simp add: error_text_def)
  finally have b: "tool_call_body en am tc s = Inr ?s1" .
  then have f: "for_tool_calls en am (tc # tcs) s = for_tool_calls en am tcs ?s1" by simp
  have d: "tcs = next_call # later_calls \<and>
          json_loads en (fc_arguments (tc_function next_call)) = Inr next_args \<longrightarrow>
            (\<exists>evs. trace (state_of (for_tool_calls en am (tc # tcs) s)) =
               trace s @ RpcCall (fc_name (tc_function next_call)) next_args # evs)"
  proof
    assume a: "tcs = next_call # later_calls \<and>
          json_loads en (fc_arguments (tc_function next_call)) = Inr next_args"
    from for_tool_calls_dispatch [OF conjunct2 [OF a], of am later_calls ?s1]
    show "\<exists>evs. trace (state_of (for_tool_calls en am (tc # tcs) s)) =
               trace s @ RpcCall (fc_name (tc_function next_call)) next_args # evs"
      unfolding f using a by simp
  qed
  from b f d show ?thesis by (intro conjI)
qed

theorem parse_failure_of_first_call_witness:
  "json_loads scripted_env (fc_arguments (tc_function call_malformed)) =
     Inl (JSONDecodeError ''Expecting property name'') \<and>
   chat_history (state_after_request ''bad good'') = [] @ [UserDict ''bad good''] \<and>
   json_loads scripted_env (fc_arguments (tc_function call_2_3)) =
     Inr [(''a'', 2), (''b'', 3)] \<and>
   tool_call_body scripted_env (tool_call_message [call_malformed, call_2_3]) call_malformed
       (state_after_request ''bad good'') =
     Inr \<lparr>chat_history =
            [AssistantDict ''I encountered an error processing the tool arguments.''],
          trace = [ModelCall (first_request [] [UserDict ''bad good''])]\<rparr> \<and>
   for_tool_calls scripted_env (tool_call_message [call_malformed, call_2_3])
       [call_malformed, call_2_3] (state_after_request ''bad good'') =
     for_tool_calls scripted_env (tool_call_message [call_malformed, call_2_3]) [call_2_3]
       \<lparr>chat_history =
            [AssistantDict ''I encountered an error processing the tool arguments.''],
        trace = [ModelCall (first_request [] [UserDict ''bad good''])]\<rparr> \<and>
   (\<exists>evs. trace (state_of (for_tool_calls scripted_env
              (tool_call_message [call_malformed, call_2_3])
              [call_malformed, call_2_3] (state_after_request ''bad good''))) =
      trace (state_after_request ''bad good'') @
      RpcCall (fc_name (tc_function call_2_3)) [(''a'', 2), (''b'', 3)] # evs)"
proof -
  have j: "json_loads scripted_env (fc_arguments (tc_function call_malformed)) =
     Inl (JSONDecodeError ''Expecting property name'')"
    by (simp add: scripted_defs)
  have c: "chat_history (state_after_request ''bad good'') = [] @ [UserDict ''bad good'']"
    by (simp add: state_after_request_def)
  have n: "json_loads scripted_env (fc_arguments (tc_function call_2_3)) =
     Inr [(''a'', 2), (''b'', 3)]"
    by (simp add: scripted_defs)
  note t = parse_failure_of_first_call [OF j c,
        where am = "tool_call_message [call_malformed, call_2_3]" and tcs = "[call_2_3]"
          and next_call = call_2_3 and later_calls = "[]"
          and next_args = "[(''a'', 2), (''b'', 3)]"]
  have t1: "tool_call_body scripted_env (tool_call_message [call_malformed, call_2_3])
       call_malformed (state_after_request ''bad good'') =
     Inr \<lparr>chat_history =
            [AssistantDict ''I encountered an error processing the tool arguments.''],
          trace = [ModelCall (first_request [] [UserDict ''bad good''])]\<rparr>"
    using conjunct1 [OF t] by (simp add: state_after_request_def)
  have t2: "for_tool_calls scripted_env (tool_call_message [call_malformed, call_2_3])
       [call_malformed, call_2_3] (state_after_request ''bad good'') =
     for_tool_calls scripted_env (tool_call_message [call_malformed, call_2_3]) [call_2_3]
       \<lparr>chat_history =
            [AssistantDict ''I encountered an error processing the tool arguments.''],
        trace = [ModelCall (first_request [] [UserDict ''bad good''])]\<rparr>"
    using conjunct1 [OF conjunct2 [OF t]] by (simp add: state_after_request_def)
  have t3: "\<exists>evs. trace (state_of (for_tool_calls scripted_env
              (tool_call_message [call_malformed, call_2_3])
              [call_malformed, call_2_3] (state_after_request ''bad good''))) =
      trace (state_after_request ''bad good'') @
      RpcCall (fc_name (tc_function call_2_3)) [(''a'', 2), (''b'', 3)] # evs"
    using conjunct2 [OF conjunct2 [OF t]] n by blast
  from j c n t1 t2 t3 show ?thesis by (intro conjI)
qed

text \<open>
  The batch is not aborted. The first call has malformed arguments, the second is well
  formed: the second is still parsed, sent to the tool server, and its messages are
  appended, so the turn does not end with the error message alone.
\<close>

theorem parse_failure_does_not_abort_batch:
  "json_loads scripted_env (fc_arguments (tc_function call_malformed)) =
     Inl (JSONDecodeError ''Expecting property name'') \<and>
   turn scripted_env [] ''bad good'' empty_state =
     Inr \<lparr>chat_history =
            [AssistantDict ''I encountered an error processing the tool arguments.'',
             CompletionMessage (tool_call_message [call_malformed, call_2_3]),
             ToolDict ''call_3'' ''multiply'' ''6'',
             CompletionMessage (text_message ''Done.'')],
          trace =
            [ModelCall (first_request [] [UserDict ''bad good'']),
             RpcCall ''multiply'' [(''a'', 2), (''b'', 3)],
             ModelCall (followup_request
               [AssistantDict ''I encountered an error processing the tool arguments.'',
                CompletionMessage (tool_call_message [call_malformed, call_2_3]),
                ToolDict ''call_3'' ''multiply'' ''6''])]\<rparr> \<and>
   turn scripted_env [] ''bad good'' empty_state \<noteq>
     Inr \<lparr>chat_history =
            [AssistantDict ''I encountered an error processing the tool arguments.''],
          trace = [ModelCall (first_request [] [UserDict ''bad good''])]\<rparr>"
  by (simp add: run_defs)




section \<open>Proofs: the multiply tool\<close>

text \<open>
  C9, as the code has it. \<^verbatim>\<open>multiply\<close> returns the product of its arguments, and \<^verbatim>\<open>str\<close>
  of the product of 6 and 7 is \<^verbatim>\<open>42\<close>. When the model asks for one tool call, its
  arguments parse, the tool client returns and the follow-up request returns a message,
  the turn appends the user message, the tool-call message, one tool result and that
  one final message. The content of the tool result is \<^verbatim>\<open>str\<close> of the object that
  \<^verbatim>\<open>call_tool\<close> handed back (line 117), whatever that object is; it is the digits of the
  product only for a client that hands back the bare integer.
\<close>

theorem multiply_call_round_trip:
  assumes "create en (trace s) (first_request tls (chat_history s @ [UserDict u])) =
             Inr (am # others)"
    and "pending_calls am = [tc]"
    and "json_loads en (fc_arguments (tc_function tc)) = Inr args"
    and "call_tool en
           (trace s @ [ModelCall (first_request tls (chat_history s @ [UserDict u]))])
           (fc_name (tc_function tc)) args = Inr out"
    and "create en
           (trace s @ [ModelCall (first_request tls (chat_history s @ [UserDict u])),
                       RpcCall (fc_name (tc_function tc)) args])
           (followup_request
              (chat_history s @
               [UserDict u, CompletionMessage am,
                ToolDict (tc_id tc) (fc_name (tc_function tc)) (str_output en out)])) =
         Inr (fm # others')"
  shows "multiply a b = a * b \<and>
         str_int (multiply 6 7) = ''42'' \<and>
         turn en tls u s =
           Inr (s\<lparr>chat_history :=
                    chat_history s @
                    [UserDict u, CompletionMessage am,
                     ToolDict (tc_id tc) (fc_name (tc_function tc)) (str_output en out),
                     CompletionMessage fm],
                  trace :=
                    trace s @
                    [ModelCall (first_request tls (chat_history s @ [UserDict u])),
                     RpcCall (fc_name (tc_function tc)) args,
                     ModelCall (followup_request
                       (chat_history s @
                        [UserDict u, CompletionMessage am,
                         ToolDict (tc_id tc) (fc_name (tc_function tc))
                           (str_output en out)]))]\<rparr>)"
proof -
  let ?s2 = "s\<lparr>chat_history := chat_history s @ [UserDict u],
               trace := trace s @
                 [ModelCall (first_request tls (chat_history s @ [UserDict u]))]\<rparr>"
  have m: "multiply a b = a * b" by (simp add: multiply_def)
  have d: "str_int (multiply 6 7) = ''42''"
    by (simp add: multiply_def str_int_def str_nat.simps)
  have t: "turn en tls u s = for_tool_calls en am [tc] ?s2"
    using assms(1,2) by (simp add: turn_def state_ops first_choice_def)
  have ct: "call_tool en (trace ?s2) (fc_name (tc_function tc)) args = Inr out"
    using assms(4) by simp
  have cr: "create en (trace ?s2 @ [RpcCall (fc_name (tc_function tc)) args])
           (followup_request
              (chat_history ?s2 @
               [CompletionMessage am,
                ToolDict (tc_id tc) (fc_name (tc_function tc)) (str_output en out)])) =
         Inr (fm # others')"
    using assms(5) by simp
  have "turn en tls u s =
           Inr (s\<lparr>chat_history :=
                    chat_history s @
                    [UserDict u, CompletionMessage am,
                     ToolDict (tc_id tc) (fc_name (tc_function tc)) (str_output en out),
                     CompletionMessage fm],
                  trace :=
                    trace s @
                    [ModelCall (first_request tls (chat_history s @ [UserDict u])),
                     RpcCall (fc_name (tc_function tc)) args,
                     ModelCall (followup_request
                       (chat_history s @
                        [UserDict u, CompletionMessage am,
                         ToolDict (tc_id tc) (fc_name (tc_function tc))
                           (str_output en out)]))]\<rparr>)"
    using tool_call_body_success [OF assms(3) ct cr]
    by (simp add: t)
  with m d show ?thesis by simp
qed

theorem multiply_call_round_trip_witness:
  "multiply 6 7 = 6 * 7 \<and>
   turn result_object_env [] ''one'' empty_state =
     Inr \<lparr>chat_history =
            [UserDict ''one'', CompletionMessage (tool_call_message [call_6_7]),
             ToolDict ''call_1'' ''multiply'' (str_call_tool_result (CallToolResult 42)),
             CompletionMessage (text_message ''Done.'')],
          trace =
            [ModelCall (first_request [] [UserDict ''one'']),
             RpcCall ''multiply'' [(''a'', 6), (''b'', 7)],
             ModelCall (followup_request
               [UserDict ''one'', CompletionMessage (tool_call_message [call_6_7]),
                ToolDict ''call_1'' ''multiply''
                  (str_call_tool_result (CallToolResult 42))])]\<rparr>"
proof -
  have a1: "create result_object_env (trace empty_state)
      (first_request [] (chat_history empty_state @ [UserDict ''one''])) =
      Inr (tool_call_message [call_6_7] # [])"
    by (simp add: result_object_env_def scripted_defs)
  have a2: "pending_calls (tool_call_message [call_6_7]) = [call_6_7]"
    by (simp add: pending_calls_def tool_call_message_def)
  have a3: "json_loads result_object_env (fc_arguments (tc_function call_6_7)) =
      Inr [(''a'', 6), (''b'', 7)]"
    by (simp add: result_object_env_def scripted_defs)
  have a4: "call_tool result_object_env
      (trace empty_state @
         [ModelCall (first_request [] (chat_history empty_state @ [UserDict ''one'']))])
      (fc_name (tc_function call_6_7)) [(''a'', 6), (''b'', 7)] = Inr (CallToolResult 42)"
    by (simp add: result_object_env_def scripted_defs)
  have a5: "create result_object_env
           (trace empty_state @
              [ModelCall (first_request [] (chat_history empty_state @ [UserDict ''one''])),
               RpcCall (fc_name (tc_function call_6_7)) [(''a'', 6), (''b'', 7)]])
           (followup_request
              (chat_history empty_state @
               [UserDict ''one'', CompletionMessage (tool_call_message [call_6_7]),
                ToolDict (tc_id call_6_7) (fc_name (tc_function call_6_7))
                  (str_output result_object_env (CallToolResult 42))])) =
         Inr (text_message ''Done.'' # [])"
    by (simp add: result_object_env_def scripted_create_def followup_request_def)
  from multiply_call_round_trip [OF a1 a2 a3 a4 a5, of 6 7]
  show ?thesis
    by (simp add: result_object_env_def empty_state_def call_6_7_def)
qed

text \<open>
  With a tool client that hands back the product of 6 and 7 inside a result object,
  the content of the tool result is the printed form of that object, not \<^verbatim>\<open>42\<close>.
\<close>

theorem tool_result_content_is_printed_object:
  "call_tool result_object_env [ModelCall (first_request [] [UserDict ''one''])]
     ''multiply'' [(''a'', 6), (''b'', 7)] = Inr (CallToolResult (multiply 6 7)) \<and>
   chat_history (state_of (turn result_object_env [] ''one'' empty_state)) =
     [UserDict ''one'', CompletionMessage (tool_call_message [call_6_7]),
      ToolDict ''call_1'' ''multiply'' ''CallToolResult(data=42)'',
      CompletionMessage (text_message ''Done.'')] \<and>
   chat_history (state_of (turn result_object_env [] ''one'' empty_state)) ! 2 \<noteq>
     ToolDict ''call_1'' ''multiply'' ''42''"
  by (simp add: result_object_env_def str_call_tool_result_def run_defs)


end
